theory Spec2Isabelle
  imports Main "HOL-Library.Word"
begin

section \<open>The boot ROM of \<^verbatim>\<open>capa_a_bootloader/bootloader.c\<close>\<close>

text \<open>
  The source is one C file: six placeholder functions for the hardware and the
  entry point \<^verbatim>\<open>boot_rom_entry\<close>. It is embedded as follows.

  \<^item> \<^verbatim>\<open>uint8_t\<close> is an 8-bit word. \<^verbatim>\<open>size_t\<close> and pointers are 32-bit words:
    the boot ROM addresses its RAM at \<^verbatim>\<open>0x20000000\<close>, a 32-bit bus address.
    Word addition wraps, as unsigned arithmetic in C does.
  \<^item> RAM is a function from addresses to bytes. \<^verbatim>\<open>p[i] = v\<close> is the update
    of the RAM at address \<open>p + i\<close>. A function that writes through a pointer
    takes the RAM and returns the new one.
  \<^item> A \<^verbatim>\<open>for\<close> loop is a recursive function on its counter, with a
    termination proof.
  \<^item> \<^verbatim>\<open>while(1);\<close> never returns: \<^verbatim>\<open>enter_safe_mode\<close> is a partial
    function whose value \<open>None\<close> stands for not returning.
  \<^item> \<^verbatim>\<open>boot_rom_entry\<close> is a machine that takes one step per statement, so
    that what a run has reached, and in which order, can be stated.
\<close>

subsection \<open>Memory\<close>

type_synonym u8 = "8 word"
type_synonym size_t = "32 word"
type_synonym addr = "32 word"
type_synonym mem = "addr \<Rightarrow> u8"

subsection \<open>Constants (lines 49--53)\<close>

text \<open>\<^verbatim>\<open>#define GENOME_MAX_SIZE (128 * 1024)\<close>\<close>

definition GENOME_MAX_SIZE :: size_t where
  "GENOME_MAX_SIZE = 128 * 1024"

text \<open>\<^verbatim>\<open>#define PRIVATE_KEY_SIZE 32\<close>\<close>

definition PRIVATE_KEY_SIZE :: size_t where
  "PRIVATE_KEY_SIZE = 32"

text \<open>\<^verbatim>\<open>uint8_t* genome_buffer = (uint8_t*)0x20000000;\<close> (line 75)\<close>

definition genome_buffer :: addr where
  "genome_buffer = 0x20000000"

subsection \<open>The hardware placeholders (lines 8--46)\<close>

text \<open>\<^verbatim>\<open>void puf_init() { }\<close>: the body is empty.\<close>

definition puf_init :: "mem \<Rightarrow> mem" where
  "puf_init m = m"

text \<open>
  \<^verbatim>\<open>for(size_t i = 0; i < buffer_size; ++i) key_buffer[i] = (uint8_t)(i + 0xAB);\<close>
  The loop from counter value \<open>i\<close> on. The sum \<open>i + 0xAB\<close> is computed in
  \<^verbatim>\<open>size_t\<close> and the cast keeps its low eight bits.
\<close>

function puf_derive_key_loop :: "mem \<Rightarrow> addr \<Rightarrow> size_t \<Rightarrow> size_t \<Rightarrow> mem" where
  "puf_derive_key_loop m key_buffer buffer_size i =
     (if i < buffer_size
      then puf_derive_key_loop (m(key_buffer + i := ucast (i + 0xAB)))
             key_buffer buffer_size (i + 1)
      else m)"
  by pat_completeness auto
termination
  apply (relation "measure (\<lambda>(m, key_buffer, buffer_size, i). unat (buffer_size - i))")
   apply simp
  apply simp
  apply unat_arith
  done

declare puf_derive_key_loop.simps [simp del]

definition puf_derive_key :: "mem \<Rightarrow> addr \<Rightarrow> size_t \<Rightarrow> mem" where
  "puf_derive_key m key_buffer buffer_size = puf_derive_key_loop m key_buffer buffer_size 0"

text \<open>
  \<^verbatim>\<open>for(size_t i = 0; i < buffer_size; ++i) genome_buffer[i] = (uint8_t)(i % 256);\<close>
  The parameter is named \<open>buf\<close> here, since \<open>genome_buffer\<close> is the
  address constant of \<^verbatim>\<open>boot_rom_entry\<close>.
\<close>

function download_genome_loop :: "mem \<Rightarrow> addr \<Rightarrow> size_t \<Rightarrow> size_t \<Rightarrow> mem" where
  "download_genome_loop m buf buffer_size i =
     (if i < buffer_size
      then download_genome_loop (m(buf + i := ucast (i mod 256))) buf buffer_size (i + 1)
      else m)"
  by pat_completeness auto
termination
  apply (relation "measure (\<lambda>(m, buf, buffer_size, i). unat (buffer_size - i))")
   apply simp
  apply simp
  apply unat_arith
  done

declare download_genome_loop.simps [simp del]

definition download_genome :: "mem \<Rightarrow> addr \<Rightarrow> size_t \<Rightarrow> mem" where
  "download_genome m buf buffer_size = download_genome_loop m buf buffer_size 0"

text \<open>
  \<^verbatim>\<open>bool ed25519_verify(data, data_size, signature_key) { return true; }\<close>
  The three arguments and the RAM they point into are not read.
\<close>

definition ed25519_verify :: "mem \<Rightarrow> addr \<Rightarrow> size_t \<Rightarrow> addr \<Rightarrow> bool" where
  "ed25519_verify m data data_size signature_key = True"

text \<open>\<^verbatim>\<open>void execute_stage0(const uint8_t* genome_buffer) { }\<close>: the body is empty.\<close>

definition execute_stage0 :: "mem \<Rightarrow> addr \<Rightarrow> mem" where
  "execute_stage0 m buf = m"

text \<open>
  \<^verbatim>\<open>void enter_safe_mode() { while(1); }\<close>: the condition is the constant 1
  and the body is empty, so one turn of the loop leads to the next one with the
  RAM as it was. The result is the RAM on return, \<open>None\<close> when the call does not return.
\<close>

partial_function (option) enter_safe_mode :: "mem \<Rightarrow> mem option" where
  "enter_safe_mode m = enter_safe_mode m"

subsection \<open>\<^verbatim>\<open>boot_rom_entry\<close> (lines 68--86)\<close>

text \<open>The calls a run has made so far, with their arguments, oldest first.\<close>

datatype call =
    Call_puf_init
  | Call_puf_derive_key addr size_t
  | Call_download_genome addr size_t
  | Call_ed25519_verify addr size_t addr
  | Call_execute_stage0 addr
  | Call_enter_safe_mode

text \<open>
  Where control is: before one of the first four calls (lines 70, 72, 76, 79),
  inside \<^verbatim>\<open>execute_stage0\<close> (line 81), inside \<^verbatim>\<open>enter_safe_mode\<close>
  (line 84), or past the end of \<^verbatim>\<open>boot_rom_entry\<close> (line 86).
\<close>

datatype pc =
    At_puf_init
  | At_puf_derive_key
  | At_download_genome
  | At_ed25519_verify
  | In_execute_stage0
  | In_enter_safe_mode
  | Returned

record boot_state =
  pc :: pc
  ram :: mem
  calls :: "call list"

text \<open>
  What \<^verbatim>\<open>boot_rom_entry\<close> is built against. The transport and the signature
  primitive are placeholders in the source (\<^verbatim>\<open>download_genome\<close>,
  \<^verbatim>\<open>ed25519_verify\<close>); the body of \<^verbatim>\<open>boot_rom_entry\<close> is embedded with the
  two functions it calls there as arguments, and \<open>boot_rom_entry\<close> below binds them
  to the source's own. The other two fields are the addresses the compiler and the linker
  give to the local array \<^verbatim>\<open>device_private_key\<close> and to the global
  \<^verbatim>\<open>GENOME_SIGNATURE_KEY\<close> (whose 32 bytes are part of the RAM image).
\<close>

record platform =
  acquire :: "mem \<Rightarrow> addr \<Rightarrow> size_t \<Rightarrow> mem"
  verify :: "mem \<Rightarrow> addr \<Rightarrow> size_t \<Rightarrow> addr \<Rightarrow> bool"
  device_private_key :: addr
  GENOME_SIGNATURE_KEY :: addr

text \<open>
  One statement of \<^verbatim>\<open>boot_rom_entry\<close>. \<^verbatim>\<open>sizeof(device_private_key)\<close> is
  \<open>PRIVATE_KEY_SIZE\<close>. The \<^verbatim>\<open>if\<close> of line 79 calls the verifier and enters
  one of the two callees. \<^verbatim>\<open>execute_stage0\<close> returns, and \<^verbatim>\<open>boot_rom_entry\<close>
  with it. While \<^verbatim>\<open>enter_safe_mode\<close> has not returned, control is still inside it.
  \<open>None\<close>: \<^verbatim>\<open>boot_rom_entry\<close> has returned and there is no next step.
\<close>

definition boot_step :: "platform \<Rightarrow> boot_state \<Rightarrow> boot_state option" where
  "boot_step P s =
     (case pc s of
        At_puf_init \<Rightarrow>
          Some (s\<lparr>pc := At_puf_derive_key, ram := puf_init (ram s),
                  calls := calls s @ [Call_puf_init]\<rparr>)
      | At_puf_derive_key \<Rightarrow>
          Some (s\<lparr>pc := At_download_genome,
                  ram := puf_derive_key (ram s) (device_private_key P) PRIVATE_KEY_SIZE,
                  calls := calls s @
                    [Call_puf_derive_key (device_private_key P) PRIVATE_KEY_SIZE]\<rparr>)
      | At_download_genome \<Rightarrow>
          Some (s\<lparr>pc := At_ed25519_verify,
                  ram := acquire P (ram s) genome_buffer GENOME_MAX_SIZE,
                  calls := calls s @ [Call_download_genome genome_buffer GENOME_MAX_SIZE]\<rparr>)
      | At_ed25519_verify \<Rightarrow>
          (if verify P (ram s) genome_buffer GENOME_MAX_SIZE (GENOME_SIGNATURE_KEY P)
           then Some (s\<lparr>pc := In_execute_stage0,
                  calls := calls s @
                    [Call_ed25519_verify genome_buffer GENOME_MAX_SIZE (GENOME_SIGNATURE_KEY P),
                     Call_execute_stage0 genome_buffer]\<rparr>)
           else Some (s\<lparr>pc := In_enter_safe_mode,
                  calls := calls s @
                    [Call_ed25519_verify genome_buffer GENOME_MAX_SIZE (GENOME_SIGNATURE_KEY P),
                     Call_enter_safe_mode]\<rparr>))
      | In_execute_stage0 \<Rightarrow>
          Some (s\<lparr>pc := Returned, ram := execute_stage0 (ram s) genome_buffer\<rparr>)
      | In_enter_safe_mode \<Rightarrow>
          (case enter_safe_mode (ram s) of
             None \<Rightarrow> Some s
           | Some m' \<Rightarrow> Some (s\<lparr>pc := Returned, ram := m'\<rparr>))
      | Returned \<Rightarrow> None)"

text \<open>The state after \<open>n\<close> steps; a run that has returned stays where it is.\<close>

fun boot_run :: "platform \<Rightarrow> nat \<Rightarrow> boot_state \<Rightarrow> boot_state" where
  "boot_run P 0 s = s"
| "boot_run P (Suc n) s = (case boot_step P s of None \<Rightarrow> s | Some s' \<Rightarrow> boot_run P n s')"

text \<open>Entry: the RAM is what the reset left there, and nothing has been called.\<close>

definition boot_init :: "mem \<Rightarrow> boot_state" where
  "boot_init m = \<lparr>pc = At_puf_init, ram = m, calls = []\<rparr>"

text \<open>
  \<^verbatim>\<open>boot_rom_entry\<close> as the source links it, against \<^verbatim>\<open>download_genome\<close> and
  \<^verbatim>\<open>ed25519_verify\<close>: the state \<open>n\<close> steps after entry on the RAM \<open>m\<close>.
\<close>

definition boot_rom_entry :: "addr \<Rightarrow> addr \<Rightarrow> nat \<Rightarrow> mem \<Rightarrow> boot_state" where
  "boot_rom_entry key_addr pubkey_addr n m =
     boot_run \<lparr>acquire = download_genome, verify = ed25519_verify,
               device_private_key = key_addr, GENOME_SIGNATURE_KEY = pubkey_addr\<rparr>
       n (boot_init m)"

subsection \<open>RAM images for concrete runs\<close>

text \<open>A RAM of zero bytes, and a RAM where every byte is \<^verbatim>\<open>0xFF\<close>.\<close>

definition blank_ram :: mem where
  "blank_ram a = 0"

definition stale_ram :: mem where
  "stale_ram a = 0xFF"

section \<open>The loops\<close>

subsection \<open>Counter arithmetic\<close>

lemma counter_succ_not_le: "i < n \<Longrightarrow> \<not> i + 1 \<le> i" for i n :: size_t
  by unat_arith

lemma counter_succ_le: "i \<le> j \<Longrightarrow> j \<noteq> i \<Longrightarrow> i + 1 \<le> j" for i j :: size_t
  by unat_arith

lemma counter_below_succ: "j < i \<Longrightarrow> i < n \<Longrightarrow> \<not> i + 1 \<le> j" for i j n :: size_t
  by unat_arith

lemma unat_key_byte: "unat (ucast (i + 0xAB :: size_t) :: u8) = (unat i + 0xAB) mod 256"
  by (simp add: unsigned_ucast_eq take_bit_eq_mod unat_word_ariths mod_mod_cancel)

lemma unat_genome_byte: "unat (ucast (i mod 256 :: size_t) :: u8) = unat i mod 256"
  by (simp add: unsigned_ucast_eq take_bit_eq_mod unat_mod)

subsection \<open>\<^verbatim>\<open>puf_derive_key\<close>\<close>

lemma puf_derive_key_loop_unfold:
  "i < buffer_size \<Longrightarrow>
   puf_derive_key_loop m key_buffer buffer_size i =
   puf_derive_key_loop (m(key_buffer + i := ucast (i + 0xAB))) key_buffer buffer_size (i + 1)"
  by (subst puf_derive_key_loop.simps) simp

lemma puf_derive_key_loop_exit:
  "\<not> i < buffer_size \<Longrightarrow> puf_derive_key_loop m key_buffer buffer_size i = m"
  by (subst puf_derive_key_loop.simps) simp

lemma puf_derive_key_loop_frame:
  "\<not> (i \<le> j \<and> j < buffer_size) \<Longrightarrow>
   puf_derive_key_loop m key_buffer buffer_size i (key_buffer + j) = m (key_buffer + j)"
proof (induction m key_buffer buffer_size i rule: puf_derive_key_loop.induct)
  case (1 m key_buffer buffer_size i)
  show ?case
  proof (cases "i < buffer_size")
    case True
    have ne: "j \<noteq> i"
      using True "1.prems" by auto
    have nxt: "\<not> (i + 1 \<le> j \<and> j < buffer_size)"
    proof (cases "j < buffer_size")
      case below: True
      then have "j < i"
        using "1.prems" by (simp add: not_le)
      then show ?thesis
        using True counter_below_succ by blast
    next
      case False
      then show ?thesis by simp
    qed
    have "puf_derive_key_loop m key_buffer buffer_size i (key_buffer + j) =
          puf_derive_key_loop (m(key_buffer + i := ucast (i + 0xAB)))
            key_buffer buffer_size (i + 1) (key_buffer + j)"
      using True by (simp add: puf_derive_key_loop_unfold)
    also have "\<dots> = (m(key_buffer + i := ucast (i + 0xAB))) (key_buffer + j)"
      by (rule "1.IH" [OF True nxt])
    also have "\<dots> = m (key_buffer + j)"
      using ne by simp
    finally show ?thesis .
  next
    case False
    then show ?thesis by (simp add: puf_derive_key_loop_exit)
  qed
qed

lemma puf_derive_key_loop_written:
  "i \<le> j \<Longrightarrow> j < buffer_size \<Longrightarrow>
   puf_derive_key_loop m key_buffer buffer_size i (key_buffer + j) = ucast (j + 0xAB)"
proof (induction m key_buffer buffer_size i rule: puf_derive_key_loop.induct)
  case (1 m key_buffer buffer_size i)
  have lt: "i < buffer_size"
    using "1.prems" by simp
  have unfold: "puf_derive_key_loop m key_buffer buffer_size i (key_buffer + j) =
      puf_derive_key_loop (m(key_buffer + i := ucast (i + 0xAB)))
        key_buffer buffer_size (i + 1) (key_buffer + j)"
    using lt by (simp add: puf_derive_key_loop_unfold)
  show ?case
  proof (cases "j = i")
    case True
    have "\<not> (i + 1 \<le> j \<and> j < buffer_size)"
      using lt True counter_succ_not_le [where i = i and n = buffer_size] by simp
    then have "puf_derive_key_loop (m(key_buffer + i := ucast (i + 0xAB)))
        key_buffer buffer_size (i + 1) (key_buffer + j)
       = (m(key_buffer + i := ucast (i + 0xAB))) (key_buffer + j)"
      by (rule puf_derive_key_loop_frame)
    then show ?thesis
      using unfold True by simp
  next
    case False
    have "i + 1 \<le> j"
      using False "1.prems"(1) by (simp add: counter_succ_le)
    then have "puf_derive_key_loop (m(key_buffer + i := ucast (i + 0xAB)))
        key_buffer buffer_size (i + 1) (key_buffer + j) = ucast (j + 0xAB)"
      using "1.prems"(2) by (rule "1.IH" [OF lt])
    then show ?thesis
      by (simp only: unfold)
  qed
qed

lemma puf_derive_key_written:
  "i < buffer_size \<Longrightarrow>
   puf_derive_key m key_buffer buffer_size (key_buffer + i) = ucast (i + 0xAB)"
  by (simp add: puf_derive_key_def puf_derive_key_loop_written)

lemma puf_derive_key_frame:
  "buffer_size \<le> a - key_buffer \<Longrightarrow> puf_derive_key m key_buffer buffer_size a = m a"
  using puf_derive_key_loop_frame [of 0 "a - key_buffer" buffer_size m key_buffer]
  by (simp add: puf_derive_key_def)

subsection \<open>\<^verbatim>\<open>download_genome\<close>\<close>

lemma download_genome_loop_unfold:
  "i < buffer_size \<Longrightarrow>
   download_genome_loop m buf buffer_size i =
   download_genome_loop (m(buf + i := ucast (i mod 256))) buf buffer_size (i + 1)"
  by (subst download_genome_loop.simps) simp

lemma download_genome_loop_exit:
  "\<not> i < buffer_size \<Longrightarrow> download_genome_loop m buf buffer_size i = m"
  by (subst download_genome_loop.simps) simp

lemma download_genome_loop_frame:
  "\<not> (i \<le> j \<and> j < buffer_size) \<Longrightarrow>
   download_genome_loop m buf buffer_size i (buf + j) = m (buf + j)"
proof (induction m buf buffer_size i rule: download_genome_loop.induct)
  case (1 m buf buffer_size i)
  show ?case
  proof (cases "i < buffer_size")
    case running: True
    have outside: "\<not> (i + 1 \<le> j \<and> j < buffer_size)"
    proof
      assume inside: "i + 1 \<le> j \<and> j < buffer_size"
      with "1.prems" have "j < i"
        by (simp add: not_le)
      with running inside show False
        using counter_below_succ by blast
    qed
    have "j \<noteq> i"
      using running "1.prems" by auto
    then have "(m(buf + i := ucast (i mod 256))) (buf + j) = m (buf + j)"
      by simp
    moreover have "download_genome_loop (m(buf + i := ucast (i mod 256)))
        buf buffer_size (i + 1) (buf + j) = (m(buf + i := ucast (i mod 256))) (buf + j)"
      by (rule "1.IH" [OF running outside])
    ultimately show ?thesis
      by (simp only: download_genome_loop_unfold [OF running])
  next
    case False
    then show ?thesis by (simp add: download_genome_loop_exit)
  qed
qed

lemma download_genome_loop_written:
  "i \<le> j \<Longrightarrow> j < buffer_size \<Longrightarrow>
   download_genome_loop m buf buffer_size i (buf + j) = ucast (j mod 256)"
proof (induction m buf buffer_size i rule: download_genome_loop.induct)
  case (1 m buf buffer_size i)
  have running: "i < buffer_size"
    using "1.prems" by simp
  have "download_genome_loop (m(buf + i := ucast (i mod 256)))
      buf buffer_size (i + 1) (buf + j) = ucast (j mod 256)"
  proof (cases "j = i")
    case True
    have "\<not> (i + 1 \<le> j \<and> j < buffer_size)"
      using running True counter_succ_not_le [where i = i and n = buffer_size] by simp
    then have "download_genome_loop (m(buf + i := ucast (i mod 256)))
        buf buffer_size (i + 1) (buf + j) = (m(buf + i := ucast (i mod 256))) (buf + j)"
      by (rule download_genome_loop_frame)
    then show ?thesis
      using True by simp
  next
    case False
    then have "i + 1 \<le> j"
      using "1.prems"(1) by (simp add: counter_succ_le)
    then show ?thesis
      using "1.prems"(2) by (rule "1.IH" [OF running])
  qed
  then show ?case
    by (simp only: download_genome_loop_unfold [OF running])
qed

lemma download_genome_written:
  "i < buffer_size \<Longrightarrow> download_genome m buf buffer_size (buf + i) = ucast (i mod 256)"
  by (simp add: download_genome_def download_genome_loop_written)

lemma download_genome_frame_index:
  "buffer_size \<le> j \<Longrightarrow> download_genome m buf buffer_size (buf + j) = m (buf + j)"
  by (simp add: download_genome_def download_genome_loop_frame)

lemma download_genome_frame:
  "buffer_size \<le> a - buf \<Longrightarrow> download_genome m buf buffer_size a = m a"
  using download_genome_frame_index [of buffer_size "a - buf" m buf] by simp

section \<open>The run of \<^verbatim>\<open>boot_rom_entry\<close>\<close>

lemma enter_safe_mode_never_returns: "enter_safe_mode m = None"
proof (cases "enter_safe_mode m")
  case None
  then show ?thesis .
next
  case (Some m')
  have False
    by (rule enter_safe_mode.raw_induct [where P = "\<lambda>_ _. False", OF _ Some]) blast
  then show ?thesis ..
qed

lemma boot_run_add: "boot_run P (a + b) s = boot_run P b (boot_run P a s)"
proof (induction a arbitrary: s)
  case 0
  show ?case by simp
next
  case (Suc a)
  show ?case
  proof (cases "boot_step P s")
    case None
    then have "boot_run P b s = s"
      by (cases b) simp_all
    with None show ?thesis by simp
  next
    case (Some s')
    with Suc show ?thesis by simp
  qed
qed


lemma boot_run_halted: "boot_step P s = None \<Longrightarrow> boot_run P n s = s"
  by (cases n) simp_all

lemma boot_run_returned: "pc s = Returned \<Longrightarrow> boot_run P n s = s"
  by (rule boot_run_halted) (simp add: boot_step_def)

lemma boot_step_safe_mode: "pc s = In_enter_safe_mode \<Longrightarrow> boot_step P s = Some s"
  by (simp add: boot_step_def enter_safe_mode_never_returns)

lemma boot_run_safe_mode: "pc s = In_enter_safe_mode \<Longrightarrow> boot_run P n s = s"
  by (induction n) (simp_all add: boot_step_safe_mode)

lemma boot_run_executing:
  "pc s = In_execute_stage0 \<Longrightarrow>
   boot_run P (Suc n) s = s\<lparr>pc := Returned, ram := execute_stage0 (ram s) genome_buffer\<rparr>"
  by (simp add: boot_step_def boot_run_returned)


lemma boot_run_3:
  "boot_run P 3 (boot_init m) =
     \<lparr>pc = At_ed25519_verify,
      ram = acquire P (puf_derive_key (puf_init m) (device_private_key P) PRIVATE_KEY_SIZE)
              genome_buffer GENOME_MAX_SIZE,
      calls = [Call_puf_init,
               Call_puf_derive_key (device_private_key P) PRIVATE_KEY_SIZE,
               Call_download_genome genome_buffer GENOME_MAX_SIZE]\<rparr>"
  by (simp add: eval_nat_numeral boot_step_def boot_init_def)

lemma boot_run_4:
  "boot_run P 4 (boot_init m) =
     (let r3 = acquire P (puf_derive_key (puf_init m) (device_private_key P) PRIVATE_KEY_SIZE)
                 genome_buffer GENOME_MAX_SIZE;
          cv = [Call_puf_init,
                Call_puf_derive_key (device_private_key P) PRIVATE_KEY_SIZE,
                Call_download_genome genome_buffer GENOME_MAX_SIZE,
                Call_ed25519_verify genome_buffer GENOME_MAX_SIZE (GENOME_SIGNATURE_KEY P)]
      in if verify P r3 genome_buffer GENOME_MAX_SIZE (GENOME_SIGNATURE_KEY P)
         then \<lparr>pc = In_execute_stage0, ram = r3, calls = cv @ [Call_execute_stage0 genome_buffer]\<rparr>
         else \<lparr>pc = In_enter_safe_mode, ram = r3, calls = cv @ [Call_enter_safe_mode]\<rparr>)"
proof -
  have "boot_run P 4 (boot_init m) = boot_run P 1 (boot_run P 3 (boot_init m))"
    using boot_run_add [of P 3 1 "boot_init m"] by simp
  then show ?thesis
    by (simp add: boot_run_3 boot_step_def Let_def)
qed

lemma boot_run_trace:
  "boot_run P n (boot_init m) =
     (let r1 = puf_init m;
          r2 = puf_derive_key r1 (device_private_key P) PRIVATE_KEY_SIZE;
          r3 = acquire P r2 genome_buffer GENOME_MAX_SIZE;
          c3 = [Call_puf_init,
                Call_puf_derive_key (device_private_key P) PRIVATE_KEY_SIZE,
                Call_download_genome genome_buffer GENOME_MAX_SIZE];
          cv = c3 @ [Call_ed25519_verify genome_buffer GENOME_MAX_SIZE (GENOME_SIGNATURE_KEY P)]
      in if n = 0 then \<lparr>pc = At_puf_init, ram = m, calls = []\<rparr>
         else if n = 1 then \<lparr>pc = At_puf_derive_key, ram = r1, calls = take 1 c3\<rparr>
         else if n = 2 then \<lparr>pc = At_download_genome, ram = r2, calls = take 2 c3\<rparr>
         else if n = 3 then \<lparr>pc = At_ed25519_verify, ram = r3, calls = c3\<rparr>
         else if verify P r3 genome_buffer GENOME_MAX_SIZE (GENOME_SIGNATURE_KEY P)
         then (if n = 4
               then \<lparr>pc = In_execute_stage0, ram = r3,
                      calls = cv @ [Call_execute_stage0 genome_buffer]\<rparr>
               else \<lparr>pc = Returned, ram = execute_stage0 r3 genome_buffer,
                      calls = cv @ [Call_execute_stage0 genome_buffer]\<rparr>)
         else \<lparr>pc = In_enter_safe_mode, ram = r3, calls = cv @ [Call_enter_safe_mode]\<rparr>)"
proof -
  let ?r3 = "acquire P (puf_derive_key (puf_init m) (device_private_key P) PRIVATE_KEY_SIZE)
               genome_buffer GENOME_MAX_SIZE"
  consider "n = 0" | "n = 1" | "n = 2" | "n = 3" | k where "n = 4 + k"
    by atomize_elim arith
  then show ?thesis
  proof cases
    case 1
    then show ?thesis by (simp add: boot_init_def)
  next
    case 2
    then show ?thesis by (simp add: boot_init_def boot_step_def)
  next
    case 3
    then show ?thesis by (simp add: eval_nat_numeral boot_init_def boot_step_def)
  next
    case 4
    then show ?thesis by (simp add: boot_run_3)
  next
    case 5
    have split: "boot_run P n (boot_init m) = boot_run P k (boot_run P 4 (boot_init m))"
      unfolding 5 by (rule boot_run_add)
    show ?thesis
    proof (cases "verify P ?r3 genome_buffer GENOME_MAX_SIZE (GENOME_SIGNATURE_KEY P)")
      case True
      show ?thesis
      proof (cases k)
        case 0
        with 5 True show ?thesis by (simp add: boot_run_4)
      next
        case (Suc k')
        have "pc (boot_run P 4 (boot_init m)) = In_execute_stage0"
          using True by (simp add: boot_run_4)
        then have "boot_run P (Suc k') (boot_run P 4 (boot_init m)) =
            (boot_run P 4 (boot_init m))
              \<lparr>pc := Returned,
               ram := execute_stage0 (ram (boot_run P 4 (boot_init m))) genome_buffer\<rparr>"
          by (rule boot_run_executing)
        with 5 True split Suc show ?thesis
          by (simp add: boot_run_4 del: boot_run.simps)
      qed
    next
      case False
      with 5 split show ?thesis
        by (simp add: boot_run_4 boot_run_safe_mode)
    qed
  qed
qed

lemma boot_run_at_verify:
  "pc (boot_run P k (boot_init m)) = At_ed25519_verify \<Longrightarrow> k = 3"
  by (simp add: boot_run_trace Let_def split: if_splits)

lemma boot_run_at_download:
  "pc (boot_run P k (boot_init m)) = At_download_genome \<Longrightarrow> k = 2"
  by (simp add: boot_run_trace Let_def split: if_splits)

lemma boot_run_in_execute:
  "pc (boot_run P k (boot_init m)) = In_execute_stage0 \<Longrightarrow> k = 4"
  by (simp add: boot_run_trace Let_def split: if_splits)

subsection \<open>The run as the source links it\<close>

lemma boot_rom_entry_4:
  "boot_rom_entry key_addr pubkey_addr 4 m =
     \<lparr>pc = In_execute_stage0,
      ram = download_genome (puf_derive_key (puf_init m) key_addr PRIVATE_KEY_SIZE)
              genome_buffer GENOME_MAX_SIZE,
      calls = [Call_puf_init,
               Call_puf_derive_key key_addr PRIVATE_KEY_SIZE,
               Call_download_genome genome_buffer GENOME_MAX_SIZE,
               Call_ed25519_verify genome_buffer GENOME_MAX_SIZE pubkey_addr,
               Call_execute_stage0 genome_buffer]\<rparr>"
  by (simp add: boot_rom_entry_def boot_run_4 ed25519_verify_def)

lemma boot_rom_entry_2:
  "boot_rom_entry key_addr pubkey_addr 2 m =
     \<lparr>pc = At_download_genome,
      ram = puf_derive_key (puf_init m) key_addr PRIVATE_KEY_SIZE,
      calls = [Call_puf_init, Call_puf_derive_key key_addr PRIVATE_KEY_SIZE]\<rparr>"
  by (simp add: boot_rom_entry_def boot_run_trace)

lemma boot_rom_entry_3:
  "boot_rom_entry key_addr pubkey_addr 3 m =
     \<lparr>pc = At_ed25519_verify,
      ram = download_genome (puf_derive_key (puf_init m) key_addr PRIVATE_KEY_SIZE)
              genome_buffer GENOME_MAX_SIZE,
      calls = [Call_puf_init,
               Call_puf_derive_key key_addr PRIVATE_KEY_SIZE,
               Call_download_genome genome_buffer GENOME_MAX_SIZE]\<rparr>"
  by (simp add: boot_rom_entry_def boot_run_3)

lemma boot_rom_entry_never_safe_mode:
  "pc (boot_rom_entry key_addr pubkey_addr n m) \<noteq> In_enter_safe_mode \<and>
   Call_enter_safe_mode \<notin> set (calls (boot_rom_entry key_addr pubkey_addr n m))"
  by (simp add: boot_rom_entry_def boot_run_trace Let_def ed25519_verify_def)

lemma key_byte_at_handoff:
  assumes "i < PRIVATE_KEY_SIZE" and "GENOME_MAX_SIZE \<le> key_addr + i - genome_buffer"
  shows "ram (boot_rom_entry key_addr pubkey_addr 4 m) (key_addr + i) = ucast (i + 0xAB)"
proof -
  have "ram (boot_rom_entry key_addr pubkey_addr 4 m) (key_addr + i) =
      puf_derive_key (puf_init m) key_addr PRIVATE_KEY_SIZE (key_addr + i)"
    using assms(2) by (simp add: boot_rom_entry_4 download_genome_frame)
  also have "\<dots> = ucast (i + 0xAB)"
    using assms(1) by (rule puf_derive_key_written)
  finally show ?thesis .
qed

section \<open>Claims\<close>

text \<open>
  C1. Whatever the acquirer delivers and whatever the verification primitive is: when
  the run stands before the verification (line 79) and the primitive answers true on the
  RAM, the buffer, the length and the key it is given there, the run reaches
  \<^verbatim>\<open>execute_stage0\<close>, called on \<open>genome_buffer\<close> with the RAM that was
  verified, and at no step is control in \<^verbatim>\<open>enter_safe_mode\<close> nor has that
  function been called.
\<close>

theorem authentic_reaches_executing:
  assumes at_verify: "pc (boot_run P k (boot_init m)) = At_ed25519_verify"
    and authentic: "verify P (ram (boot_run P k (boot_init m)))
                      genome_buffer GENOME_MAX_SIZE (GENOME_SIGNATURE_KEY P)"
  shows "(\<exists>n. pc (boot_run P n (boot_init m)) = In_execute_stage0 \<and>
              last (calls (boot_run P n (boot_init m))) = Call_execute_stage0 genome_buffer \<and>
              ram (boot_run P n (boot_init m)) = ram (boot_run P k (boot_init m))) \<and>
         (\<forall>n. pc (boot_run P n (boot_init m)) \<noteq> In_enter_safe_mode \<and>
              Call_enter_safe_mode \<notin> set (calls (boot_run P n (boot_init m))))"
proof -
  have k: "k = 3"
    using at_verify by (rule boot_run_at_verify)
  have verdict: "verify P
      (acquire P (puf_derive_key (puf_init m) (device_private_key P) PRIVATE_KEY_SIZE)
         genome_buffer GENOME_MAX_SIZE)
      genome_buffer GENOME_MAX_SIZE (GENOME_SIGNATURE_KEY P)"
    using authentic unfolding k by (simp add: boot_run_trace)
  have "pc (boot_run P 4 (boot_init m)) = In_execute_stage0 \<and>
        last (calls (boot_run P 4 (boot_init m))) = Call_execute_stage0 genome_buffer \<and>
        ram (boot_run P 4 (boot_init m)) = ram (boot_run P k (boot_init m))"
    using verdict unfolding k by (simp add: boot_run_trace)
  moreover have "pc (boot_run P n (boot_init m)) \<noteq> In_enter_safe_mode \<and>
        Call_enter_safe_mode \<notin> set (calls (boot_run P n (boot_init m)))" for n
    using verdict by (simp add: boot_run_trace Let_def)
  ultimately show ?thesis
    by blast
qed

theorem authentic_reaches_executing_witness:
  "pc (boot_rom_entry 0x10000000 0x08000000 3 blank_ram) = At_ed25519_verify \<and>
   ed25519_verify (ram (boot_rom_entry 0x10000000 0x08000000 3 blank_ram))
     genome_buffer GENOME_MAX_SIZE 0x08000000 \<and>
   (\<exists>n. pc (boot_rom_entry 0x10000000 0x08000000 n blank_ram) = In_execute_stage0 \<and>
        last (calls (boot_rom_entry 0x10000000 0x08000000 n blank_ram)) =
          Call_execute_stage0 genome_buffer \<and>
        ram (boot_rom_entry 0x10000000 0x08000000 n blank_ram) =
          ram (boot_rom_entry 0x10000000 0x08000000 3 blank_ram)) \<and>
   (\<forall>n. pc (boot_rom_entry 0x10000000 0x08000000 n blank_ram) \<noteq> In_enter_safe_mode \<and>
        Call_enter_safe_mode \<notin> set (calls (boot_rom_entry 0x10000000 0x08000000 n blank_ram)))"
proof -
  let ?P = "\<lparr>acquire = download_genome, verify = ed25519_verify,
             device_private_key = 0x10000000, GENOME_SIGNATURE_KEY = 0x08000000\<rparr>"
  have at_verify: "pc (boot_run ?P 3 (boot_init blank_ram)) = At_ed25519_verify"
    by (simp add: eval_nat_numeral boot_step_def boot_init_def)
  have authentic: "verify ?P (ram (boot_run ?P 3 (boot_init blank_ram)))
      genome_buffer GENOME_MAX_SIZE (GENOME_SIGNATURE_KEY ?P)"
    by (simp add: ed25519_verify_def)
  show ?thesis
    using at_verify authentic authentic_reaches_executing [OF at_verify authentic]
    by (simp add: boot_rom_entry_def)
qed

text \<open>
  C2. Whatever the acquirer delivers and whatever the verification primitive is: when
  the run stands before the verification (line 79) and the primitive answers false there,
  the run reaches \<^verbatim>\<open>enter_safe_mode\<close>, and at no step is control in
  \<^verbatim>\<open>execute_stage0\<close> nor has that function been called on any buffer \<open>b\<close>.
\<close>

theorem inauthentic_reaches_safe_mode:
  assumes at_verify: "pc (boot_run P k (boot_init m)) = At_ed25519_verify"
    and inauthentic: "\<not> verify P (ram (boot_run P k (boot_init m)))
                      genome_buffer GENOME_MAX_SIZE (GENOME_SIGNATURE_KEY P)"
  shows "(\<exists>n. pc (boot_run P n (boot_init m)) = In_enter_safe_mode \<and>
              last (calls (boot_run P n (boot_init m))) = Call_enter_safe_mode) \<and>
         (\<forall>n. pc (boot_run P n (boot_init m)) \<noteq> In_execute_stage0 \<and>
              Call_execute_stage0 b \<notin> set (calls (boot_run P n (boot_init m))))"
proof -
  have k: "k = 3"
    using at_verify by (rule boot_run_at_verify)
  have verdict: "\<not> verify P
      (acquire P (puf_derive_key (puf_init m) (device_private_key P) PRIVATE_KEY_SIZE)
         genome_buffer GENOME_MAX_SIZE)
      genome_buffer GENOME_MAX_SIZE (GENOME_SIGNATURE_KEY P)"
    using inauthentic unfolding k by (simp add: boot_run_trace)
  have "pc (boot_run P 4 (boot_init m)) = In_enter_safe_mode \<and>
        last (calls (boot_run P 4 (boot_init m))) = Call_enter_safe_mode"
    using verdict by (simp add: boot_run_trace)
  moreover have "pc (boot_run P n (boot_init m)) \<noteq> In_execute_stage0 \<and>
        Call_execute_stage0 b \<notin> set (calls (boot_run P n (boot_init m)))" for n
    using verdict by (simp add: boot_run_trace Let_def)
  ultimately show ?thesis
    by blast
qed

theorem inauthentic_reaches_safe_mode_witness:
  "pc (boot_run \<lparr>acquire = download_genome, verify = (\<lambda>m data data_size key. False),
                 device_private_key = 0x10000000, GENOME_SIGNATURE_KEY = 0x08000000\<rparr>
         3 (boot_init blank_ram)) = At_ed25519_verify \<and>
   (\<exists>n. pc (boot_run \<lparr>acquire = download_genome, verify = (\<lambda>m data data_size key. False),
                 device_private_key = 0x10000000, GENOME_SIGNATURE_KEY = 0x08000000\<rparr>
         n (boot_init blank_ram)) = In_enter_safe_mode \<and>
        last (calls (boot_run \<lparr>acquire = download_genome,
                 verify = (\<lambda>m data data_size key. False),
                 device_private_key = 0x10000000, GENOME_SIGNATURE_KEY = 0x08000000\<rparr>
         n (boot_init blank_ram))) = Call_enter_safe_mode) \<and>
   (\<forall>n. pc (boot_run \<lparr>acquire = download_genome, verify = (\<lambda>m data data_size key. False),
                 device_private_key = 0x10000000, GENOME_SIGNATURE_KEY = 0x08000000\<rparr>
         n (boot_init blank_ram)) \<noteq> In_execute_stage0 \<and>
        Call_execute_stage0 genome_buffer \<notin>
          set (calls (boot_run \<lparr>acquire = download_genome,
                 verify = (\<lambda>m data data_size key. False),
                 device_private_key = 0x10000000, GENOME_SIGNATURE_KEY = 0x08000000\<rparr>
         n (boot_init blank_ram))))"
proof -
  let ?P = "\<lparr>acquire = download_genome, verify = (\<lambda>m data data_size key. False),
             device_private_key = 0x10000000, GENOME_SIGNATURE_KEY = 0x08000000\<rparr>"
  have at_verify: "pc (boot_run ?P 3 (boot_init blank_ram)) = At_ed25519_verify"
    by (simp add: eval_nat_numeral boot_step_def boot_init_def)
  have inauthentic: "\<not> verify ?P (ram (boot_run ?P 3 (boot_init blank_ram)))
      genome_buffer GENOME_MAX_SIZE (GENOME_SIGNATURE_KEY ?P)"
    by simp
  show ?thesis
    using at_verify
      inauthentic_reaches_safe_mode [OF at_verify inauthentic, of genome_buffer]
    by simp
qed

text \<open>
  C3, as stated, fails. The claim: the verifier never answers Authentic by default, and
  without a real primitive the boot goes to safe mode. The verifier of the source is the
  placeholder of lines 30--34, which returns true without reading its arguments: on an
  all-zero RAM, for zero bytes of data and a key pointer of 0, it answers true, and the
  run is inside \<^verbatim>\<open>execute_stage0\<close> after four steps.
\<close>

theorem default_authentic_stub_counterexample:
  "ed25519_verify blank_ram genome_buffer 0 0 \<and>
   pc (boot_rom_entry 0x10000000 0x08000000 4 blank_ram) = In_execute_stage0 \<and>
   last (calls (boot_rom_entry 0x10000000 0x08000000 4 blank_ram)) =
     Call_execute_stage0 genome_buffer"
  by (simp add: boot_rom_entry_4 ed25519_verify_def)

text \<open>
  C3, amended. \<^verbatim>\<open>boot_rom_entry\<close> has no fallback of its own: whatever acquirer
  and verifier it is built against, \<^verbatim>\<open>execute_stage0\<close> is called only in a run
  where the verifier answered true at line 79. The verifier the source binds is a
  simulation stub that answers true for every RAM, buffer, length and key.
\<close>

theorem executes_only_on_true_verdict:
  "ed25519_verify m' data data_size signature_key \<and>
   (Call_execute_stage0 b \<in> set (calls (boot_run P n (boot_init m))) \<longrightarrow>
    (\<exists>k. pc (boot_run P k (boot_init m)) = At_ed25519_verify \<and>
         verify P (ram (boot_run P k (boot_init m)))
           genome_buffer GENOME_MAX_SIZE (GENOME_SIGNATURE_KEY P)))"
proof (intro conjI impI)
  show "ed25519_verify m' data data_size signature_key"
    by (simp add: ed25519_verify_def)
next
  assume "Call_execute_stage0 b \<in> set (calls (boot_run P n (boot_init m)))"
  then have "verify P
      (acquire P (puf_derive_key (puf_init m) (device_private_key P) PRIVATE_KEY_SIZE)
         genome_buffer GENOME_MAX_SIZE)
      genome_buffer GENOME_MAX_SIZE (GENOME_SIGNATURE_KEY P)"
    by (simp add: boot_run_trace Let_def split: if_splits)
  then have "pc (boot_run P 3 (boot_init m)) = At_ed25519_verify \<and>
      verify P (ram (boot_run P 3 (boot_init m)))
        genome_buffer GENOME_MAX_SIZE (GENOME_SIGNATURE_KEY P)"
    by (simp add: boot_run_3)
  then show "\<exists>k. pc (boot_run P k (boot_init m)) = At_ed25519_verify \<and>
      verify P (ram (boot_run P k (boot_init m)))
        genome_buffer GENOME_MAX_SIZE (GENOME_SIGNATURE_KEY P)" ..
qed

theorem executes_only_on_true_verdict_witness:
  "ed25519_verify stale_ram genome_buffer 0 0 \<and>
   Call_execute_stage0 genome_buffer \<in>
     set (calls (boot_rom_entry 0x10000000 0x08000000 4 blank_ram)) \<and>
   (\<exists>k. pc (boot_rom_entry 0x10000000 0x08000000 k blank_ram) = At_ed25519_verify \<and>
        ed25519_verify (ram (boot_rom_entry 0x10000000 0x08000000 k blank_ram))
          genome_buffer GENOME_MAX_SIZE 0x08000000)"
proof -
  let ?P = "\<lparr>acquire = download_genome, verify = ed25519_verify,
             device_private_key = 0x10000000, GENOME_SIGNATURE_KEY = 0x08000000\<rparr>"
  have called: "Call_execute_stage0 genome_buffer \<in>
      set (calls (boot_rom_entry 0x10000000 0x08000000 4 blank_ram))"
    by (simp add: boot_rom_entry_4)
  then have "Call_execute_stage0 genome_buffer \<in> set (calls (boot_run ?P 4 (boot_init blank_ram)))"
    by (simp add: boot_rom_entry_def)
  with executes_only_on_true_verdict
    [of stale_ram genome_buffer 0 0 genome_buffer ?P 4 blank_ram]
  have "ed25519_verify stale_ram genome_buffer 0 0 \<and>
    (\<exists>k. pc (boot_run ?P k (boot_init blank_ram)) = At_ed25519_verify \<and>
         verify ?P (ram (boot_run ?P k (boot_init blank_ram)))
           genome_buffer GENOME_MAX_SIZE (GENOME_SIGNATURE_KEY ?P))"
    by blast
  with called show ?thesis
    by (simp add: boot_rom_entry_def)
qed

text \<open>
  C4, as stated, fails. The claim: the length given to the verifier is the number of
  bytes acquired, never a fixed maximum. The length in the call of line 79 is the
  constant \<open>GENOME_MAX_SIZE\<close>, 131072 = 128 KiB.
\<close>

theorem verify_length_counterexample:
  "Call_ed25519_verify genome_buffer GENOME_MAX_SIZE 0x08000000 \<in>
     set (calls (boot_rom_entry 0x10000000 0x08000000 4 blank_ram)) \<and>
   unat GENOME_MAX_SIZE = 131072"
  by (simp add: boot_rom_entry_4 GENOME_MAX_SIZE_def)

text \<open>
  C4, amended. In every run, with any acquirer and verifier, the length given to the
  verifier is the constant \<open>GENOME_MAX_SIZE\<close> = 128 * 1024, and it is the capacity that
  was given to the acquirer for the same buffer; the acquirer returns no byte count.
\<close>

theorem verify_length_is_capacity:
  "Call_ed25519_verify data data_size key \<in> set (calls (boot_run P n (boot_init m))) \<Longrightarrow>
   data_size = GENOME_MAX_SIZE \<and> unat data_size = 128 * 1024 \<and>
   Call_download_genome data data_size \<in> set (calls (boot_run P n (boot_init m)))"
  by (auto simp add: boot_run_trace Let_def GENOME_MAX_SIZE_def split: if_splits)

theorem verify_length_is_capacity_witness:
  "Call_ed25519_verify genome_buffer GENOME_MAX_SIZE 0x08000000 \<in>
     set (calls (boot_rom_entry 0x10000000 0x08000000 4 blank_ram)) \<and>
   unat GENOME_MAX_SIZE = 128 * 1024 \<and>
   Call_download_genome genome_buffer GENOME_MAX_SIZE \<in>
     set (calls (boot_rom_entry 0x10000000 0x08000000 4 blank_ram))"
proof -
  let ?P = "\<lparr>acquire = download_genome, verify = ed25519_verify,
             device_private_key = 0x10000000, GENOME_SIGNATURE_KEY = 0x08000000\<rparr>"
  have called: "Call_ed25519_verify genome_buffer GENOME_MAX_SIZE 0x08000000 \<in>
      set (calls (boot_run ?P 4 (boot_init blank_ram)))"
    by (simp add: boot_run_4 ed25519_verify_def)
  show ?thesis
    using called verify_length_is_capacity [OF called]
    by (simp add: boot_rom_entry_def)
qed

text \<open>
  C5, as stated, fails. The claim: when control passes to stage 0, the memory of the
  device key has been wiped. With the key array at \<^verbatim>\<open>0x10000000\<close> and a RAM that
  was all zero at entry, the first byte of the array is \<^verbatim>\<open>0xAB\<close>, the first byte
  of the derived key, when the run is inside \<^verbatim>\<open>execute_stage0\<close>.
\<close>

theorem device_key_not_wiped_counterexample:
  "pc (boot_rom_entry 0x10000000 0x08000000 4 blank_ram) = In_execute_stage0 \<and>
   ram (boot_rom_entry 0x10000000 0x08000000 4 blank_ram) 0x10000000 = 0xAB"
proof -
  have "ram (boot_rom_entry 0x10000000 0x08000000 4 blank_ram) (0x10000000 + 0) = ucast (0 + 0xAB :: size_t)"
    by (rule key_byte_at_handoff) (simp_all add: PRIVATE_KEY_SIZE_def GENOME_MAX_SIZE_def genome_buffer_def)
  then show ?thesis
    by (simp add: boot_rom_entry_4)
qed

text \<open>
  C5, amended. \<^verbatim>\<open>boot_rom_entry\<close> does not wipe the device key: when control is
  inside \<^verbatim>\<open>execute_stage0\<close>, every byte \<open>i\<close> of \<^verbatim>\<open>device_private_key\<close>
  that does not lie in the genome buffer still holds what \<^verbatim>\<open>puf_derive_key\<close>
  wrote there, \<open>(i + 0xAB) mod 256\<close>.
\<close>

theorem device_key_survives_handoff:
  assumes executing: "pc (boot_rom_entry key_addr pubkey_addr n m) = In_execute_stage0"
    and in_key: "i < PRIVATE_KEY_SIZE"
    and apart: "GENOME_MAX_SIZE \<le> key_addr + i - genome_buffer"
  shows "ram (boot_rom_entry key_addr pubkey_addr n m) (key_addr + i) =
           puf_derive_key (puf_init m) key_addr PRIVATE_KEY_SIZE (key_addr + i) \<and>
         unat (ram (boot_rom_entry key_addr pubkey_addr n m) (key_addr + i)) =
           (unat i + 0xAB) mod 256"
proof -
  have n: "n = 4"
    using executing unfolding boot_rom_entry_def by (rule boot_run_in_execute)
  have "ram (boot_rom_entry key_addr pubkey_addr 4 m) (key_addr + i) = ucast (i + 0xAB)"
    using in_key apart by (rule key_byte_at_handoff)
  then show ?thesis
    unfolding n using in_key by (simp add: puf_derive_key_written unat_key_byte)
qed

theorem device_key_survives_handoff_witness:
  "pc (boot_rom_entry 0x10000000 0x08000000 4 blank_ram) = In_execute_stage0 \<and>
   (31 :: size_t) < PRIVATE_KEY_SIZE \<and>
   GENOME_MAX_SIZE \<le> 0x10000000 + 31 - genome_buffer \<and>
   ram (boot_rom_entry 0x10000000 0x08000000 4 blank_ram) (0x10000000 + 31) =
     puf_derive_key (puf_init blank_ram) 0x10000000 PRIVATE_KEY_SIZE (0x10000000 + 31) \<and>
   unat (ram (boot_rom_entry 0x10000000 0x08000000 4 blank_ram) (0x10000000 + 31)) = 202"
proof -
  have executing: "pc (boot_rom_entry 0x10000000 0x08000000 4 blank_ram) = In_execute_stage0"
    by (simp add: boot_rom_entry_4)
  have in_key: "(31 :: size_t) < PRIVATE_KEY_SIZE"
    by (simp add: PRIVATE_KEY_SIZE_def)
  have apart: "GENOME_MAX_SIZE \<le> 0x10000000 + 31 - genome_buffer"
    by (simp add: GENOME_MAX_SIZE_def genome_buffer_def)
  note inst = device_key_survives_handoff [OF executing in_key apart]
  have byte: "unat (ram (boot_rom_entry 0x10000000 0x08000000 4 blank_ram) (0x10000000 + 31)) = 202"
    using inst [THEN conjunct2] by simp
  show ?thesis
    using executing in_key apart inst [THEN conjunct1] byte by (intro conjI)
qed

text \<open>
  C6, as stated, fails. The claim: the buffer is zeroed before the acquisition begins.
  On a RAM where every byte was \<^verbatim>\<open>0xFF\<close> at entry, the first byte of the genome
  buffer is still \<^verbatim>\<open>0xFF\<close> when the run stands before \<^verbatim>\<open>download_genome\<close>
  (line 76).
\<close>

theorem buffer_not_zeroed_counterexample:
  "pc (boot_rom_entry 0x10000000 0x08000000 2 stale_ram) = At_download_genome \<and>
   ram (boot_rom_entry 0x10000000 0x08000000 2 stale_ram) genome_buffer = 0xFF"
proof -
  have "PRIVATE_KEY_SIZE \<le> genome_buffer - 0x10000000"
    by (simp add: PRIVATE_KEY_SIZE_def genome_buffer_def)
  then have "puf_derive_key (puf_init stale_ram) 0x10000000 PRIVATE_KEY_SIZE genome_buffer =
      puf_init stale_ram genome_buffer"
    by (rule puf_derive_key_frame)
  then show ?thesis
    by (simp add: boot_rom_entry_2 puf_init_def stale_ram_def)
qed

text \<open>
  C6, amended. \<^verbatim>\<open>boot_rom_entry\<close> does not zero the genome buffer: when the run
  stands before \<^verbatim>\<open>download_genome\<close>, every buffer byte outside the key array holds
  what it held at entry. \<^verbatim>\<open>download_genome\<close> then writes every index below the
  capacity: when the run stands before the verification, byte \<open>i\<close> of the buffer is
  \<open>i mod 256\<close>, whatever the RAM held at entry.
\<close>

theorem buffer_overwritten_not_zeroed:
  assumes in_buffer: "i < GENOME_MAX_SIZE"
  shows "(pc (boot_rom_entry key_addr pubkey_addr k m) = At_download_genome \<and>
          PRIVATE_KEY_SIZE \<le> genome_buffer + i - key_addr \<longrightarrow>
          ram (boot_rom_entry key_addr pubkey_addr k m) (genome_buffer + i) =
            m (genome_buffer + i)) \<and>
         (pc (boot_rom_entry key_addr pubkey_addr n m) = At_ed25519_verify \<longrightarrow>
          ram (boot_rom_entry key_addr pubkey_addr n m) (genome_buffer + i) = ucast (i mod 256))"
proof (intro conjI impI)
  assume before: "pc (boot_rom_entry key_addr pubkey_addr k m) = At_download_genome \<and>
      PRIVATE_KEY_SIZE \<le> genome_buffer + i - key_addr"
  then have "pc (boot_rom_entry key_addr pubkey_addr k m) = At_download_genome" ..
  then have k: "k = 2"
    unfolding boot_rom_entry_def by (rule boot_run_at_download)
  show "ram (boot_rom_entry key_addr pubkey_addr k m) (genome_buffer + i) = m (genome_buffer + i)"
    unfolding k using before
    by (simp add: boot_rom_entry_2 puf_derive_key_frame puf_init_def)
next
  assume "pc (boot_rom_entry key_addr pubkey_addr n m) = At_ed25519_verify"
  then have n: "n = 3"
    unfolding boot_rom_entry_def by (rule boot_run_at_verify)
  show "ram (boot_rom_entry key_addr pubkey_addr n m) (genome_buffer + i) = ucast (i mod 256)"
    unfolding n using in_buffer
    by (simp add: boot_rom_entry_3 download_genome_written)
qed

theorem buffer_overwritten_not_zeroed_witness:
  "(5 :: size_t) < GENOME_MAX_SIZE \<and>
   pc (boot_rom_entry 0x10000000 0x08000000 2 stale_ram) = At_download_genome \<and>
   PRIVATE_KEY_SIZE \<le> genome_buffer + 5 - 0x10000000 \<and>
   ram (boot_rom_entry 0x10000000 0x08000000 2 stale_ram) (genome_buffer + 5) = 0xFF \<and>
   pc (boot_rom_entry 0x10000000 0x08000000 3 stale_ram) = At_ed25519_verify \<and>
   ram (boot_rom_entry 0x10000000 0x08000000 3 stale_ram) (genome_buffer + 5) = 5"
proof -
  have in_buffer: "(5 :: size_t) < GENOME_MAX_SIZE"
    by (simp add: GENOME_MAX_SIZE_def)
  have before: "pc (boot_rom_entry 0x10000000 0x08000000 2 stale_ram) = At_download_genome"
    by (simp add: boot_rom_entry_2)
  have apart: "PRIVATE_KEY_SIZE \<le> genome_buffer + 5 - 0x10000000"
    by (simp add: PRIVATE_KEY_SIZE_def genome_buffer_def)
  have after: "pc (boot_rom_entry 0x10000000 0x08000000 3 stale_ram) = At_ed25519_verify"
    by (simp add: boot_rom_entry_3)
  note inst = buffer_overwritten_not_zeroed
    [OF in_buffer, of "0x10000000" "0x08000000" 2 stale_ram 3]
  have old: "ram (boot_rom_entry 0x10000000 0x08000000 2 stale_ram) (genome_buffer + 5) = 0xFF"
    using inst [THEN conjunct1] before apart by (simp add: stale_ram_def)
  have new: "ram (boot_rom_entry 0x10000000 0x08000000 3 stale_ram) (genome_buffer + 5) = 5"
    using inst [THEN conjunct2] after by simp
  show ?thesis
    using in_buffer before apart old after new by (intro conjI)
qed

text \<open>
  C7. \<^verbatim>\<open>download_genome\<close> writes only at indices below \<open>buffer_size\<close>, the
  capacity it is given: for every RAM, buffer address and capacity, the byte at every
  index \<open>j\<close> at or beyond the capacity is what it was. (Every address is
  \<open>buf + j\<close> for one index \<open>j\<close>, so this is all of the RAM but the
  \<open>buffer_size\<close> bytes of the buffer.) The function has no other length: the
  source offers exactly \<open>buffer_size\<close> bytes.
\<close>

theorem download_genome_stays_below_capacity:
  "buffer_size \<le> j \<Longrightarrow> download_genome m buf buffer_size (buf + j) = m (buf + j)"
  by (simp add: download_genome_def download_genome_loop_frame)

theorem download_genome_stays_below_capacity_witness:
  "GENOME_MAX_SIZE \<le> GENOME_MAX_SIZE \<and>
   download_genome stale_ram genome_buffer GENOME_MAX_SIZE (genome_buffer + GENOME_MAX_SIZE) = 0xFF"
proof -
  have beyond: "GENOME_MAX_SIZE \<le> GENOME_MAX_SIZE"
    by simp
  show ?thesis
    using download_genome_stays_below_capacity [OF beyond, of stale_ram genome_buffer]
    by (simp add: stale_ram_def)
qed

text \<open>
  C8. Safe mode is terminal. \<^verbatim>\<open>enter_safe_mode\<close> never returns, and once control
  is inside it the state of the run is the same after any number of steps, with any
  acquirer and verifier: control stays there, \<^verbatim>\<open>boot_rom_entry\<close> does not return
  or start again, the list of calls does not grow (so \<^verbatim>\<open>execute_stage0\<close> is not
  called afterwards) and the RAM is not written.
\<close>

theorem safe_mode_is_terminal:
  "pc s = In_enter_safe_mode \<Longrightarrow> enter_safe_mode (ram s) = None \<and> boot_run P n s = s"
  by (simp add: enter_safe_mode_never_returns boot_run_safe_mode)

theorem safe_mode_is_terminal_witness:
  "pc (boot_run \<lparr>acquire = download_genome, verify = (\<lambda>m data data_size key. False),
                 device_private_key = 0x10000000, GENOME_SIGNATURE_KEY = 0x08000000\<rparr>
         4 (boot_init blank_ram)) = In_enter_safe_mode \<and>
   enter_safe_mode
     (ram (boot_run \<lparr>acquire = download_genome, verify = (\<lambda>m data data_size key. False),
                 device_private_key = 0x10000000, GENOME_SIGNATURE_KEY = 0x08000000\<rparr>
         4 (boot_init blank_ram))) = None \<and>
   boot_run \<lparr>acquire = download_genome, verify = (\<lambda>m data data_size key. False),
             device_private_key = 0x10000000, GENOME_SIGNATURE_KEY = 0x08000000\<rparr>
     1000
     (boot_run \<lparr>acquire = download_genome, verify = (\<lambda>m data data_size key. False),
                 device_private_key = 0x10000000, GENOME_SIGNATURE_KEY = 0x08000000\<rparr>
         4 (boot_init blank_ram)) =
   boot_run \<lparr>acquire = download_genome, verify = (\<lambda>m data data_size key. False),
             device_private_key = 0x10000000, GENOME_SIGNATURE_KEY = 0x08000000\<rparr>
     4 (boot_init blank_ram)"
proof -
  let ?P = "\<lparr>acquire = download_genome, verify = (\<lambda>m data data_size key. False),
             device_private_key = 0x10000000, GENOME_SIGNATURE_KEY = 0x08000000\<rparr>"
  have inside: "pc (boot_run ?P 4 (boot_init blank_ram)) = In_enter_safe_mode"
    by (simp add: boot_run_4)
  show ?thesis
    using inside safe_mode_is_terminal [OF inside, of ?P 1000]
    by (intro conjI) simp_all
qed

text \<open>
  C9. As the source links it, against the stub \<^verbatim>\<open>ed25519_verify\<close>: for every RAM
  at entry (so every payload and every value of the public key) and every placement of
  the two key objects, the run calls \<^verbatim>\<open>execute_stage0\<close> on \<open>genome_buffer\<close>
  at its fourth step, and at no step is control in \<^verbatim>\<open>enter_safe_mode\<close> nor has
  that function been called. The answer of \<^verbatim>\<open>ed25519_verify\<close> is the same for any
  two inputs.
\<close>

theorem stub_boot_always_executes:
  "pc (boot_rom_entry key_addr pubkey_addr 4 m) = In_execute_stage0 \<and>
   Call_execute_stage0 genome_buffer \<in> set (calls (boot_rom_entry key_addr pubkey_addr 4 m)) \<and>
   (\<forall>n. pc (boot_rom_entry key_addr pubkey_addr n m) \<noteq> In_enter_safe_mode \<and>
        Call_enter_safe_mode \<notin> set (calls (boot_rom_entry key_addr pubkey_addr n m))) \<and>
   ed25519_verify m1 data1 size1 key1 = ed25519_verify m2 data2 size2 key2"
  by (simp add: boot_rom_entry_4 boot_rom_entry_never_safe_mode ed25519_verify_def)

theorem stub_boot_always_executes_witness:
  "pc (boot_rom_entry 0x10000000 0x08000000 4 stale_ram) = In_execute_stage0 \<and>
   Call_execute_stage0 genome_buffer \<in>
     set (calls (boot_rom_entry 0x10000000 0x08000000 4 stale_ram)) \<and>
   (\<forall>n. pc (boot_rom_entry 0x10000000 0x08000000 n stale_ram) \<noteq> In_enter_safe_mode \<and>
        Call_enter_safe_mode \<notin> set (calls (boot_rom_entry 0x10000000 0x08000000 n stale_ram))) \<and>
   ed25519_verify blank_ram genome_buffer GENOME_MAX_SIZE 0x08000000 =
     ed25519_verify stale_ram 0 0 0"
  by (rule stub_boot_always_executes)

text \<open>
  C10. The key that \<^verbatim>\<open>puf_derive_key\<close> writes is a fixed pattern: for every
  index \<open>i\<close> below the requested length, byte \<open>i\<close> of the output buffer is
  \<open>(i + 0xAB) mod 256\<close>. The byte depends on the index alone: it is the same
  whatever the RAM held before (\<open>m\<close> and \<open>m'\<close>) and wherever the buffer lies
  (\<open>key_buffer\<close> and \<open>key_buffer'\<close>), so nothing of the device enters it.
\<close>

theorem puf_derive_key_fixed_pattern:
  "i < buffer_size \<Longrightarrow>
   unat (puf_derive_key m key_buffer buffer_size (key_buffer + i)) = (unat i + 0xAB) mod 256 \<and>
   puf_derive_key m key_buffer buffer_size (key_buffer + i) =
     puf_derive_key m' key_buffer' buffer_size (key_buffer' + i)"
  by (simp add: puf_derive_key_written unat_key_byte)

theorem puf_derive_key_fixed_pattern_witness:
  "(100 :: size_t) < 200 \<and>
   unat (puf_derive_key (\<lambda>a. 0) 0x10000000 200 (0x10000000 + 100)) = 15 \<and>
   puf_derive_key (\<lambda>a. 0) 0x10000000 200 (0x10000000 + 100) =
     puf_derive_key (\<lambda>a. 0xFF) 0x30000000 200 (0x30000000 + 100)"
proof -
  have below: "(100 :: size_t) < 200"
    by simp
  note inst = puf_derive_key_fixed_pattern
    [OF below, of "\<lambda>a. 0" "0x10000000" "\<lambda>a. 0xFF" "0x30000000"]
  have byte: "unat (puf_derive_key (\<lambda>a. 0) 0x10000000 200 (0x10000000 + 100)) = 15"
    using inst [THEN conjunct1] by simp
  have same: "puf_derive_key (\<lambda>a. 0) 0x10000000 200 (0x10000000 + 100) =
      puf_derive_key (\<lambda>a. 0xFF) 0x30000000 200 (0x30000000 + 100)"
    using inst [THEN conjunct2] by simp
  show ?thesis
    using below byte same by (intro conjI)
qed

end
